theory Spec2Isabelle
  imports Complex_Main "HOL-Library.Multiset"
begin

section \<open>Tensors of rank at most two\<close>

text \<open>
  The script \<^verbatim>\<open>examples/00_understanding_deepsurv.py\<close> computes with NumPy arrays and
  TensorFlow tensors of rank 0, 1 and 2. A rank-1 tensor of shape \<open>(n,)\<close> is \<open>Vec\<close>, a
  rank-2 tensor of shape \<open>(r, c)\<close> is \<open>Mat\<close>, the list of its rows. The shape is part of
  the model because the binary operators of TensorFlow broadcast: the result of an
  operator depends on the shapes of its arguments, not only on their entries.

  Entries are real numbers: the embedding idealises the 32-bit floats of the script.
  Rounding, overflow to infinity and underflow to zero are not modelled.
\<close>

datatype tensor = Scalar real | Vec "real list" | Mat "real list list"

datatype tf_error = InvalidArgument | NonFinite

fun map_tensor :: "(real \<Rightarrow> real) \<Rightarrow> tensor \<Rightarrow> tensor" where
  "map_tensor f (Scalar x) = Scalar (f x)"
| "map_tensor f (Vec xs) = Vec (map f xs)"
| "map_tensor f (Mat rows) = Mat (map (map f) rows)"

fun entries :: "tensor \<Rightarrow> real list" where
  "entries (Scalar x) = [x]"
| "entries (Vec xs) = xs"
| "entries (Mat rows) = concat rows"

text \<open>\<^verbatim>\<open>tf.math.exp\<close>: entrywise.\<close>

definition tf_exp :: "tensor \<Rightarrow> tensor" where
  "tf_exp t = map_tensor exp t"

text \<open>
  \<^verbatim>\<open>tf.math.log\<close>: entrywise. On a float that is zero or negative TensorFlow returns
  \<open>-inf\<close> or \<open>NaN\<close>, not a number of the model: that outcome is the error value
  \<open>NonFinite\<close>.
\<close>

definition tf_log :: "tensor \<Rightarrow> tf_error + tensor" where
  "tf_log t = (if list_all (\<lambda>x. 0 < x) (entries t) then Inr (map_tensor ln t) else Inl NonFinite)"

text \<open>
  \<^verbatim>\<open>tf.math.cumsum(x)\<close> with its default \<^verbatim>\<open>axis=0\<close>: the running sum along the first
  axis. The shape is kept: on a \<open>(n, c)\<close> matrix row \<open>i\<close> of the result is the entrywise
  sum of rows \<open>0..i\<close>. A rank-0 tensor has no axis 0.
\<close>

fun cumsum_from :: "real \<Rightarrow> real list \<Rightarrow> real list" where
  "cumsum_from acc [] = []"
| "cumsum_from acc (x # xs) = (acc + x) # cumsum_from (acc + x) xs"

fun cumsum_rows :: "real list \<Rightarrow> real list list \<Rightarrow> real list list" where
  "cumsum_rows acc [] = []"
| "cumsum_rows acc (r # rs) = map2 (+) acc r # cumsum_rows (map2 (+) acc r) rs"

fun tf_cumsum :: "tensor \<Rightarrow> tf_error + tensor" where
  "tf_cumsum (Scalar x) = Inl InvalidArgument"
| "tf_cumsum (Vec xs) = Inr (Vec (cumsum_from 0 xs))"
| "tf_cumsum (Mat []) = Inr (Mat [])"
| "tf_cumsum (Mat (r # rs)) = Inr (Mat (r # cumsum_rows r rs))"

text \<open>
  \<^verbatim>\<open>tf.transpose(a)\<close> with its default permutation reverses the axes: a matrix is
  transposed, a tensor of rank 0 or 1 is returned as it is.
\<close>

fun tf_transpose :: "tensor \<Rightarrow> tensor" where
  "tf_transpose (Scalar x) = Scalar x"
| "tf_transpose (Vec xs) = Vec xs"
| "tf_transpose (Mat rows) = Mat (transpose rows)"

text \<open>
  Broadcasting of a binary operator, as NumPy and TensorFlow define it: the shapes are
  aligned at their last axis, a missing leading axis counts as 1, and two extents are
  compatible when they are equal or one of them is 1; an axis of extent 1 is read at
  index 0 for every index of the result.
\<close>

definition nrows :: "real list list \<Rightarrow> nat" where
  "nrows A = length A"

definition ncols :: "real list list \<Rightarrow> nat" where
  "ncols A = (case A of [] \<Rightarrow> 0 | r # _ \<Rightarrow> length r)"

definition bdim :: "nat \<Rightarrow> nat \<Rightarrow> nat option" where
  "bdim m n = (if m = n then Some m else if m = 1 then Some n else if n = 1 then Some m else None)"

definition bget :: "real list list \<Rightarrow> nat \<Rightarrow> nat \<Rightarrow> real" where
  "bget A i j = A ! (if nrows A = 1 then 0 else i) ! (if ncols A = 1 then 0 else j)"

definition broadcast2 ::
  "(real \<Rightarrow> real \<Rightarrow> real) \<Rightarrow> real list list \<Rightarrow> real list list \<Rightarrow> tf_error + real list list" where
  "broadcast2 f A B =
     (case bdim (nrows A) (nrows B) of
        None \<Rightarrow> Inl InvalidArgument
      | Some r \<Rightarrow>
         (case bdim (ncols A) (ncols B) of
            None \<Rightarrow> Inl InvalidArgument
          | Some c \<Rightarrow> Inr (map (\<lambda>i. map (\<lambda>j. f (bget A i j) (bget B i j)) [0..<c]) [0..<r])))"

fun tf_binop :: "(real \<Rightarrow> real \<Rightarrow> real) \<Rightarrow> tensor \<Rightarrow> tensor \<Rightarrow> tf_error + tensor" where
  "tf_binop f (Scalar x) (Scalar y) = Inr (Scalar (f x y))"
| "tf_binop f (Scalar x) (Vec ys) = Inr (Vec (map (f x) ys))"
| "tf_binop f (Scalar x) (Mat B) = Inr (Mat (map (map (f x)) B))"
| "tf_binop f (Vec xs) (Scalar y) = Inr (Vec (map (\<lambda>x. f x y) xs))"
| "tf_binop f (Mat A) (Scalar y) = Inr (Mat (map (map (\<lambda>x. f x y)) A))"
| "tf_binop f (Vec xs) (Vec ys) =
     (case broadcast2 f [xs] [ys] of Inl e \<Rightarrow> Inl e | Inr C \<Rightarrow> Inr (Vec (concat C)))"
| "tf_binop f (Vec xs) (Mat B) =
     (case broadcast2 f [xs] B of Inl e \<Rightarrow> Inl e | Inr C \<Rightarrow> Inr (Mat C))"
| "tf_binop f (Mat A) (Vec ys) =
     (case broadcast2 f A [ys] of Inl e \<Rightarrow> Inl e | Inr C \<Rightarrow> Inr (Mat C))"
| "tf_binop f (Mat A) (Mat B) =
     (case broadcast2 f A B of Inl e \<Rightarrow> Inl e | Inr C \<Rightarrow> Inr (Mat C))"

definition tf_sub :: "tensor \<Rightarrow> tensor \<Rightarrow> tf_error + tensor" where
  "tf_sub a b = tf_binop (-) a b"

definition tf_mul :: "tensor \<Rightarrow> tensor \<Rightarrow> tf_error + tensor" where
  "tf_mul a b = tf_binop (*) a b"

text \<open>\<^verbatim>\<open>tf.math.reduce_sum(x)\<close> with no axis: the sum of all entries, a scalar.\<close>

definition reduce_sum :: "tensor \<Rightarrow> real" where
  "reduce_sum t = sum_list (entries t)"

section \<open>The loss closure (lines 115 to 133)\<close>

text \<open>
  \<^verbatim>\<open>negative_log_likelihood(E)\<close> returns the closure \<^verbatim>\<open>loss(y_true, y_pred)\<close>; the
  curried function below is that closure once \<open>E\<close> is given. The statements of the
  body are kept one by one, with the names of the source (\<open>neg_likelihood'\<close> is
  \<^verbatim>\<open>neg_likelihood_\<close>). \<^verbatim>\<open>num_observed_events\<close> is the constant 1 of line 130.
\<close>

definition negative_log_likelihood :: "tensor \<Rightarrow> tensor \<Rightarrow> tensor \<Rightarrow> tf_error + real" where
  "negative_log_likelihood E y_true y_pred =
     (let hazard_ratio = tf_exp y_pred in
      case tf_cumsum hazard_ratio of
        Inl e \<Rightarrow> Inl e
      | Inr cum \<Rightarrow>
         (case tf_log cum of
            Inl e \<Rightarrow> Inl e
          | Inr log_risk \<Rightarrow>
             (case tf_sub (tf_transpose y_pred) log_risk of
                Inl e \<Rightarrow> Inl e
              | Inr uncensored_likelihood \<Rightarrow>
                 (case tf_mul uncensored_likelihood E of
                    Inl e \<Rightarrow> Inl e
                  | Inr censored_likelihood \<Rightarrow>
                     (let neg_likelihood' = - reduce_sum censored_likelihood;
                          num_observed_events = 1;
                          neg_likelihood = neg_likelihood' / num_observed_events
                      in Inr neg_likelihood)))))"

text \<open>
  The negative log partial likelihood as the specification words it, on a batch of
  \<open>n\<close> patients in descending order of time, with event indicators \<open>e\<close> and predicted
  risk scores \<open>h\<close>: patient \<open>i\<close> contributes \<open>e\<^sub>i * (h\<^sub>i - ln (\<Sum>j\<le>i. exp h\<^sub>j))\<close>, and the
  loss is the negated sum of the contributions.
\<close>

definition textbook_nll :: "real list \<Rightarrow> real list \<Rightarrow> real" where
  "textbook_nll e h = - (\<Sum>i<length h. e ! i * (h ! i - ln (\<Sum>j\<le>i. exp (h ! j))))"

text \<open>Lines 205 and 209: \<^verbatim>\<open>np.exp(-model.predict(X))\<close>, entrywise on the predictions.\<close>

definition Y_pred_of :: "real list \<Rightarrow> real list" where
  "Y_pred_of hs = map (\<lambda>h. exp (- h)) hs"

section \<open>NumPy arrays along their first axis\<close>

datatype py_error = ValueError string | FileNotFoundError string | IndexError | OSError string

text \<open>
  \<^verbatim>\<open>a[idx]\<close> with an array of indices selects along the first axis; an index out of
  range raises \<^verbatim>\<open>IndexError\<close>. The feature matrix is the list of its rows, of any type.
\<close>

definition take_idx :: "'a list \<Rightarrow> nat list \<Rightarrow> py_error + 'a list" where
  "take_idx xs idx =
     (if list_all (\<lambda>i. i < length xs) idx then Inr (map (\<lambda>i. xs ! i) idx) else Inl IndexError)"

fun np_take :: "tensor \<Rightarrow> nat list \<Rightarrow> py_error + tensor" where
  "np_take (Scalar x) idx = Inl IndexError"
| "np_take (Vec xs) idx = (case take_idx xs idx of Inl e \<Rightarrow> Inl e | Inr ys \<Rightarrow> Inr (Vec ys))"
| "np_take (Mat rows) idx = (case take_idx rows idx of Inl e \<Rightarrow> Inl e | Inr ys \<Rightarrow> Inr (Mat ys))"

text \<open>The items of an array along its first axis, and their number \<^verbatim>\<open>shape[0]\<close>.\<close>

fun items :: "tensor \<Rightarrow> tensor list" where
  "items (Scalar x) = []"
| "items (Vec xs) = map Scalar xs"
| "items (Mat rows) = map Vec rows"

fun shape0 :: "tensor \<Rightarrow> nat option" where
  "shape0 (Scalar x) = None"
| "shape0 (Vec xs) = Some (length xs)"
| "shape0 (Mat rows) = Some (length rows)"

text \<open>
  \<^verbatim>\<open>np.argsort(a)\<close> returns indices that sort \<open>a\<close> into ascending order. NumPy's default
  sort is not stable, so the order of the indices of equal entries is not fixed by its
  documentation. \<open>is_argsort\<close> is what every result satisfies: a permutation of
  \<open>0..<n\<close> that sorts the array. \<open>np_argsort\<close> is one such result, the stable one.
\<close>

definition is_argsort :: "nat list \<Rightarrow> real list \<Rightarrow> bool" where
  "is_argsort idx ys \<longleftrightarrow> sort idx = [0..<length ys] \<and> sorted (map (\<lambda>i. ys ! i) idx)"

definition np_argsort :: "real list \<Rightarrow> nat list" where
  "np_argsort ys = sort_key (\<lambda>i. ys ! i) [0..<length ys]"

text \<open>Lines 95 to 97: the three arrays indexed by the same \<^verbatim>\<open>sort_idx\<close>.\<close>

definition sort_by_time ::
  "nat list \<Rightarrow> 'x list \<Rightarrow> real list \<Rightarrow> tensor \<Rightarrow> py_error + ('x list \<times> real list \<times> tensor)" where
  "sort_by_time sort_idx X Y E =
     (case take_idx X sort_idx of
        Inl e \<Rightarrow> Inl e
      | Inr X' \<Rightarrow>
         (case take_idx Y sort_idx of
            Inl e \<Rightarrow> Inl e
          | Inr Y' \<Rightarrow>
             (case np_take E sort_idx of
                Inl e \<Rightarrow> Inl e
              | Inr E' \<Rightarrow> Inr (X', Y', E'))))"

text \<open>Lines 94 to 97, with \<^verbatim>\<open>sort_idx = np.argsort(Y_train)[::-1]\<close>.\<close>

definition sort_step ::
  "'x list \<Rightarrow> real list \<Rightarrow> tensor \<Rightarrow> py_error + ('x list \<times> real list \<times> tensor)" where
  "sort_step X Y E = sort_by_time (rev (np_argsort Y)) X Y E"

section \<open>The call of \<^verbatim>\<open>model.fit\<close> (lines 190 to 195)\<close>

record fit_args =
  batch_size :: nat
  epochs :: nat
  shuffle :: bool

text \<open>
  \<^verbatim>\<open>n_patients_train\<close> is \<^verbatim>\<open>X_train.shape[0]\<close>, read at line 65 before the sort.
\<close>

definition script_fit_args :: "nat \<Rightarrow> fit_args" where
  "script_fit_args n_patients_train =
     \<lparr>batch_size = n_patients_train, epochs = 200, shuffle = False\<rparr>"

text \<open>
  How Keras cuts the training data of one epoch into batches: consecutive slices of
  \<open>batch_size\<close> samples, the last one shorter, of the data as given or, with
  \<^verbatim>\<open>shuffle=True\<close>, of the data reordered by \<open>shuffler\<close> (a random permutation, a
  parameter of the model).
\<close>

function keras_batches :: "nat \<Rightarrow> 'a list \<Rightarrow> 'a list list" where
  "keras_batches bs xs =
     (if bs = 0 \<or> xs = [] then [] else take bs xs # keras_batches bs (drop bs xs))"
  by pat_completeness auto
termination
  by (relation "measure (\<lambda>(bs, xs). length xs)") auto

declare keras_batches.simps [simp del]

definition epoch_batches :: "('a list \<Rightarrow> 'a list) \<Rightarrow> fit_args \<Rightarrow> 'a list \<Rightarrow> 'a list list" where
  "epoch_batches shuffler args samples =
     keras_batches (batch_size args) (if shuffle args then shuffler samples else samples)"

section \<open>The training loop and its two callbacks (lines 181 to 195)\<close>

text \<open>
  The loop of \<^verbatim>\<open>model.fit\<close> and the callbacks \<^verbatim>\<open>TerminateOnNaN\<close> and
  \<^verbatim>\<open>ModelCheckpoint\<close> are code of Keras: the script only constructs the callbacks and
  calls \<^verbatim>\<open>fit\<close>. Their definitions below are modelled from the specification (training
  terminates early on a non-finite loss; the best-loss model is checkpointed), with the
  details of the Keras documentation for the arguments the script passes.

  The loss that Keras logs is a 32-bit float. The callbacks only classify it
  (\<^verbatim>\<open>np.isnan\<close>, \<^verbatim>\<open>np.isinf\<close>) and compare it (\<^verbatim>\<open>np.less\<close>), so a logged loss is a real
  number or one of the three special values; a comparison with \<open>NaN\<close> is false.
\<close>

datatype fl = NaN | NegInf | Fin real | PosInf

fun np_isnan :: "fl \<Rightarrow> bool" where
  "np_isnan NaN = True"
| "np_isnan _ = False"

fun np_isinf :: "fl \<Rightarrow> bool" where
  "np_isinf NegInf = True"
| "np_isinf PosInf = True"
| "np_isinf _ = False"

fun np_less :: "fl \<Rightarrow> fl \<Rightarrow> bool" where
  "np_less NaN _ = False"
| "np_less _ NaN = False"
| "np_less _ NegInf = False"
| "np_less NegInf _ = True"
| "np_less PosInf _ = False"
| "np_less (Fin a) (Fin b) = (a < b)"
| "np_less (Fin a) PosInf = True"

text \<open>
  The state of \<^verbatim>\<open>model.fit\<close>: the weights of the model, the flag
  \<^verbatim>\<open>model.stop_training\<close>, the best loss \<^verbatim>\<open>ModelCheckpoint\<close> has seen (initially
  \<open>+inf\<close> in mode \<^verbatim>\<open>min\<close>), and the contents of the checkpoint file. \<open>history\<close> has one
  entry for each epoch that ran: the loss logged, the weights at the end of the epoch,
  and whether the checkpoint file was written at the end of that epoch.
\<close>

record 'w fit_state =
  weights :: 'w
  stop_training :: bool
  best :: fl
  checkpoint :: "'w option"
  history :: "(fl \<times> 'w \<times> bool) list"

text \<open>
  Modelled from the spec: the callback \<^verbatim>\<open>TerminateOnNaN\<close> of Keras ("a training
  callback that halts on non-finite loss values"). At the end of a batch, a loss that is
  \<open>NaN\<close> or infinite sets \<^verbatim>\<open>stop_training\<close>.
\<close>

definition terminate_on_nan :: "fl \<Rightarrow> 'w fit_state \<Rightarrow> 'w fit_state" where
  "terminate_on_nan loss st =
     (if np_isnan loss \<or> np_isinf loss then st\<lparr>stop_training := True\<rparr> else st)"

text \<open>
  Modelled from the spec: the callback \<^verbatim>\<open>ModelCheckpoint\<close> of Keras ("checkpointing of
  the best-loss model"), with the arguments of line 182, \<^verbatim>\<open>monitor='loss'\<close>,
  \<^verbatim>\<open>save_best_only=True\<close> and \<^verbatim>\<open>mode='min'\<close>. At the end of an epoch the model is saved,
  over the file, when the loss is less (\<^verbatim>\<open>np.less\<close>) than the best so far.
\<close>

definition model_checkpoint :: "fl \<Rightarrow> 'w fit_state \<Rightarrow> 'w fit_state" where
  "model_checkpoint loss st =
     (if np_less loss (best st)
      then st\<lparr>best := loss, checkpoint := Some (weights st),
              history := history st @ [(loss, weights st, True)]\<rparr>
      else st\<lparr>history := history st @ [(loss, weights st, False)]\<rparr>)"

text \<open>
  One epoch. \<open>step\<close> is the work of Keras on the batches of one epoch, a parameter of
  the model: from the weights it returns the updated weights and the loss logged. Then
  the callbacks run, \<^verbatim>\<open>TerminateOnNaN\<close> on the loss logged and \<^verbatim>\<open>ModelCheckpoint\<close> at
  the end of the epoch.
\<close>

definition run_epoch :: "('w \<Rightarrow> 'w \<times> fl) \<Rightarrow> 'w fit_state \<Rightarrow> 'w fit_state" where
  "run_epoch step st =
     (case step (weights st) of
        (w', loss) \<Rightarrow> model_checkpoint loss (terminate_on_nan loss (st\<lparr>weights := w'\<rparr>)))"

text \<open>
  Modelled from the spec: the loop of \<^verbatim>\<open>model.fit\<close> over the epochs ("early termination
  on non-finite loss"). After the callbacks of an epoch, the loop is left when
  \<^verbatim>\<open>stop_training\<close> is set. The second argument counts the epochs still to run.
\<close>

fun fit_loop :: "('w \<Rightarrow> 'w \<times> fl) \<Rightarrow> nat \<Rightarrow> 'w fit_state \<Rightarrow> 'w fit_state" where
  "fit_loop step 0 st = st"
| "fit_loop step (Suc n) st =
     (let st' = run_epoch step st in if stop_training st' then st' else fit_loop step n st')"

definition fit :: "('w \<Rightarrow> 'w \<times> fl) \<Rightarrow> fit_args \<Rightarrow> 'w \<Rightarrow> 'w option \<Rightarrow> 'w fit_state" where
  "fit step args w0 file0 =
     fit_loop step (epochs args)
       \<lparr>weights = w0, stop_training = False, best = PosInf, checkpoint = file0, history = []\<rparr>"

section \<open>The script, top to bottom\<close>

definition PATH_DATA :: string where
  "PATH_DATA = ''../deepsurvk/datasets/data''"

definition PATH_MODELS :: string where
  "PATH_MODELS = ''models''"

text \<open>
  What the script finds when it starts: the paths that exist, the contents of the six
  \<^verbatim>\<open>.npy\<close> files (\<open>None\<close> for a file that is not there) and the contents of the
  checkpoint file \<^verbatim>\<open>models/00_understanding_deepsurv.h5\<close>, left there by an earlier run
  or absent. \<open>'w\<close> is the type of a model with its weights, \<open>'x\<close> the type of a row of
  the feature matrix.
\<close>

record ('w, 'x) world =
  paths :: "string set"
  X_train_npy :: "'x list option"
  E_train_npy :: "tensor option"
  Y_train_npy :: "tensor option"
  X_test_npy :: "'x list option"
  E_test_npy :: "tensor option"
  Y_test_npy :: "tensor option"
  model_file :: "'w option"

text \<open>
  What the script leaves to Keras and lifelines, as parameters: the model that
  \<^verbatim>\<open>Sequential\<close> and \<^verbatim>\<open>compile\<close> build, the work of one epoch given the loss function and
  the batches, the shuffling of \<^verbatim>\<open>fit\<close>, \<^verbatim>\<open>model.predict\<close> and
  \<^verbatim>\<open>utils.concordance_index\<close>.
\<close>

record ('w, 'x) keras =
  initial_model :: 'w
  train_epoch :: "(tensor \<Rightarrow> tensor \<Rightarrow> tf_error + real) \<Rightarrow> ('x \<times> real) list list \<Rightarrow> 'w \<Rightarrow> 'w \<times> fl"
  shuffler :: "('x \<times> real) list \<Rightarrow> ('x \<times> real) list"
  predict :: "'w \<Rightarrow> 'x list \<Rightarrow> real list"
  concordance_index :: "real list \<Rightarrow> real list \<Rightarrow> tensor \<Rightarrow> real"

record 'x dataset =
  X_train :: "'x list"
  E_train :: tensor
  Y_train :: "real list"
  X_test :: "'x list"
  E_test :: tensor
  Y_test :: "real list"

text \<open>The steps of the script, recorded in the order in which a run performs them.\<close>

datatype step =
    CheckDataDir | CreateModelsDir | LoadDataset | SortLabels | DefineLoss | DefineModel
  | CompileModel | Train | ReloadCheckpoint | ComputeMetrics

record 'w outcome =
  events :: "step list"
  paths_after :: "string set"
  model_file_after :: "'w option"
  result :: "py_error + (real \<times> real)"

text \<open>Lines 19 to 26. \<open>no_data_dir\<close> is the exception of line 20.\<close>

definition no_data_dir :: py_error where
  "no_data_dir = ValueError (''The directory '' @ PATH_DATA @ '' does not exist.'')"

definition startup :: "string set \<Rightarrow> py_error + string set" where
  "startup ps =
     (if PATH_DATA \<notin> ps then Inl no_data_dir
      else if PATH_MODELS \<notin> ps then Inr (insert PATH_MODELS ps) else Inr ps)"

text \<open>
  Lines 55 to 61 and 86 to 87: \<^verbatim>\<open>np.load\<close> of the six files in the order of the source
  (a file that is not there raises \<^verbatim>\<open>FileNotFoundError\<close>), then \<^verbatim>\<open>flatten\<close> of the two
  time arrays.
\<close>

definition np_load :: "string \<Rightarrow> 'a option \<Rightarrow> py_error + 'a" where
  "np_load name file = (case file of None \<Rightarrow> Inl (FileNotFoundError name) | Some a \<Rightarrow> Inr a)"

definition load_dataset :: "('w, 'x) world \<Rightarrow> py_error + 'x dataset" where
  "load_dataset w =
     (case np_load ''../deepsurvk/datasets/X_train_1000.npy'' (X_train_npy w) of
        Inl e \<Rightarrow> Inl e
      | Inr xtr \<Rightarrow>
     (case np_load ''../deepsurvk/datasets/E_train_1000.npy'' (E_train_npy w) of
        Inl e \<Rightarrow> Inl e
      | Inr etr \<Rightarrow>
     (case np_load ''../deepsurvk/datasets/Y_train_1000.npy'' (Y_train_npy w) of
        Inl e \<Rightarrow> Inl e
      | Inr ytr \<Rightarrow>
     (case np_load ''../deepsurvk/datasets/X_test_200.npy'' (X_test_npy w) of
        Inl e \<Rightarrow> Inl e
      | Inr xte \<Rightarrow>
     (case np_load ''../deepsurvk/datasets/E_test_200.npy'' (E_test_npy w) of
        Inl e \<Rightarrow> Inl e
      | Inr ete \<Rightarrow>
     (case np_load ''../deepsurvk/datasets/Y_test_200.npy'' (Y_test_npy w) of
        Inl e \<Rightarrow> Inl e
      | Inr yte \<Rightarrow>
          Inr \<lparr>X_train = xtr, E_train = etr, Y_train = entries ytr,
               X_test = xte, E_test = ete, Y_test = entries yte\<rparr>))))))"

text \<open>
  Lines 162 and 181 to 195: the loss closure \<^verbatim>\<open>negative_log_likelihood(E_train)\<close> is
  given to \<^verbatim>\<open>compile\<close>, and \<^verbatim>\<open>fit\<close> runs on the sorted arrays with the two callbacks.
  \<^verbatim>\<open>fit\<close> refuses an empty training set.
\<close>

definition train ::
  "('w, 'x) keras \<Rightarrow> nat \<Rightarrow> 'x list \<Rightarrow> real list \<Rightarrow> tensor \<Rightarrow> 'w option \<Rightarrow> py_error + 'w fit_state" where
  "train K n_patients_train X Y E file0 =
     (if X = [] then Inl (ValueError ''Expect x to be a non-empty array or dataset.'')
      else
        (let args = script_fit_args n_patients_train;
             batches = epoch_batches (shuffler K) args (zip X Y)
         in Inr (fit (train_epoch K (negative_log_likelihood E) batches) args (initial_model K) file0)))"

text \<open>Lines 205 to 211, on the model that \<^verbatim>\<open>load_model\<close> returned at line 203.\<close>

definition evaluate ::
  "('w, 'x) keras \<Rightarrow> 'w \<Rightarrow> 'x list \<Rightarrow> real list \<Rightarrow> tensor \<Rightarrow> 'x list \<Rightarrow> real list \<Rightarrow> tensor \<Rightarrow> real \<times> real" where
  "evaluate K model Xtr Ytr Etr Xte Yte Ete =
     (let Y_pred_train = Y_pred_of (predict K model Xtr);
          c_index_train = concordance_index K Ytr Y_pred_train Etr;
          Y_pred_test = Y_pred_of (predict K model Xte);
          c_index_test = concordance_index K Yte Y_pred_test Ete
      in (c_index_train, c_index_test))"

text \<open>
  The whole script. A step that raises ends the run; \<open>events\<close> lists the steps begun up
  to there. The function \<^verbatim>\<open>negative_log_likelihood\<close> is defined at lines 115 to 133, the
  model is built at lines 146 to 154 and compiled at line 162.
\<close>

definition run :: "('w, 'x) keras \<Rightarrow> ('w, 'x) world \<Rightarrow> 'w outcome" where
  "run K w =
     (case startup (paths w) of
        Inl e \<Rightarrow>
          \<lparr>events = [CheckDataDir], paths_after = paths w,
           model_file_after = model_file w, result = Inl e\<rparr>
      | Inr ps \<Rightarrow>
     (let ev = CheckDataDir # (if PATH_MODELS \<in> paths w then [] else [CreateModelsDir]) in
      case load_dataset w of
        Inl e \<Rightarrow>
          \<lparr>events = ev @ [LoadDataset], paths_after = ps,
           model_file_after = model_file w, result = Inl e\<rparr>
      | Inr d \<Rightarrow>
     (let n_patients_train = length (X_train d) in
      case sort_step (X_train d) (Y_train d) (E_train d) of
        Inl e \<Rightarrow>
          \<lparr>events = ev @ [LoadDataset, SortLabels], paths_after = ps,
           model_file_after = model_file w, result = Inl e\<rparr>
      | Inr (X, Y, E) \<Rightarrow>
     (case train K n_patients_train X Y E (model_file w) of
        Inl e \<Rightarrow>
          \<lparr>events = ev @ [LoadDataset, SortLabels, DefineLoss, DefineModel, CompileModel, Train],
           paths_after = ps, model_file_after = model_file w, result = Inl e\<rparr>
      | Inr st \<Rightarrow>
     (case checkpoint st of
        None \<Rightarrow>
          \<lparr>events = ev @ [LoadDataset, SortLabels, DefineLoss, DefineModel, CompileModel, Train,
                          ReloadCheckpoint],
           paths_after = ps, model_file_after = None,
           result = Inl (OSError ''models/00_understanding_deepsurv.h5'')\<rparr>
      | Some model \<Rightarrow>
          \<lparr>events = ev @ [LoadDataset, SortLabels, DefineLoss, DefineModel, CompileModel, Train,
                          ReloadCheckpoint, ComputeMetrics],
           paths_after = ps, model_file_after = Some model,
           result = Inr (evaluate K model X Y E (X_test d) (Y_test d) (E_test d))\<rparr>)))))"

section \<open>Reading the history of a training, and example inputs\<close>

text \<open>The components of an entry of \<open>history\<close>, and the losses that end a training.\<close>

definition loss_of :: "fl \<times> 'w \<times> bool \<Rightarrow> fl" where
  "loss_of e = fst e"

definition model_of :: "fl \<times> 'w \<times> bool \<Rightarrow> 'w" where
  "model_of e = fst (snd e)"


definition non_finite :: "fl \<Rightarrow> bool" where
  "non_finite l \<longleftrightarrow> np_isnan l \<or> np_isinf l"


text \<open>
  Example inputs, on which the script is evaluated below. In \<open>example_keras\<close> a model is
  the number of epochs it was trained for; the first epoch logs the loss 1 and the
  second logs \<open>NaN\<close>. In \<open>nan_keras\<close> the first epoch already logs \<open>NaN\<close>.
  \<open>example_world\<close> has the data directory, two training patients and one test patient,
  and neither a models directory nor a checkpoint file; \<open>stale_world\<close> has a checkpoint
  file left by an earlier run; \<open>bare_world\<close> has the data directory and no \<^verbatim>\<open>.npy\<close> file.
\<close>

definition example_keras :: "(nat, real) keras" where
  "example_keras =
     \<lparr>initial_model = 0,
      train_epoch = (\<lambda>loss batches w. (Suc w, if w = 0 then Fin 1 else NaN)),
      shuffler = (\<lambda>samples. samples),
      predict = (\<lambda>w xs. map (\<lambda>x. real w * x) xs),
      concordance_index = (\<lambda>ys ps e. sum_list ps)\<rparr>"


definition example_world :: "(nat, real) world" where
  "example_world =
     \<lparr>paths = {PATH_DATA},
      X_train_npy = Some [1, 2], E_train_npy = Some (Vec [1, 0]), Y_train_npy = Some (Vec [5, 7]),
      X_test_npy = Some [3], E_test_npy = Some (Vec [1]), Y_test_npy = Some (Vec [4]),
      model_file = None\<rparr>"


definition bare_world :: "(nat, real) world" where
  "bare_world =
     \<lparr>paths = {PATH_DATA},
      X_train_npy = None, E_train_npy = None, Y_train_npy = None,
      X_test_npy = None, E_test_npy = None, Y_test_npy = None,
      model_file = None\<rparr>"

section \<open>The loss\<close>

lemma length_cumsum_from: "length (cumsum_from a xs) = length xs"
  by (induction xs arbitrary: a) auto

lemma cumsum_from_nth: "i < length xs \<Longrightarrow> cumsum_from a xs ! i = a + (\<Sum>j\<le>i. xs ! j)"
proof (induction xs arbitrary: a i)
  case Nil
  then show ?case by simp
next
  case (Cons x xs)
  show ?case
  proof (cases i)
    case 0
    then show ?thesis by simp
  next
    case (Suc k)
    with Cons.prems have "k < length xs" by simp
    from Cons.IH [OF this, of "a + x"] Suc show ?thesis
      by (simp add: sum.atMost_Suc_shift del: sum.atMost_Suc)
  qed
qed

lemma cumsum_from_pos:
  "0 \<le> a \<Longrightarrow> \<forall>x\<in>set xs. 0 < x \<Longrightarrow> \<forall>y\<in>set (cumsum_from a xs). 0 < y"
proof (induction xs arbitrary: a)
  case Nil
  then show ?case by simp
next
  case (Cons x xs)
  have "0 \<le> a + x" using Cons.prems by simp
  from Cons.IH [OF this] Cons.prems show ?case by (simp add: add_nonneg_pos)
qed

lemma bget_row: "j < length xs \<Longrightarrow> bget [xs] 0 j = xs ! j"
  by (auto simp: bget_def nrows_def ncols_def)

lemma broadcast2_rows:
  "length xs = length ys \<Longrightarrow>
     broadcast2 f [xs] [ys] = Inr [map (\<lambda>j. f (xs ! j) (ys ! j)) [0..<length xs]]"
  by (simp add: broadcast2_def bdim_def nrows_def ncols_def bget_row)

lemma tf_binop_vec:
  "length xs = length ys \<Longrightarrow>
     tf_binop f (Vec xs) (Vec ys) = Inr (Vec (map (\<lambda>j. f (xs ! j) (ys ! j)) [0..<length xs]))"
  by (simp add: broadcast2_rows)

text \<open>
  On a prediction of rank 1, shape \<open>(n,)\<close>, with event indicators of the same shape, the
  closure computes the negative log partial likelihood: no operator broadcasts.
\<close>

lemma loss_on_rank1_prediction:
  assumes "length e = length h"
  shows "negative_log_likelihood (Vec e) y_true (Vec h) = Inr (textbook_nll e h)"
proof -
  let ?cs = "cumsum_from 0 (map exp h)"
  have pos: "list_all (\<lambda>x. 0 < x) ?cs"
    using cumsum_from_pos [of 0 "map exp h"] by (simp add: list_all_iff)
  have len: "length (map ln ?cs) = length h" by (simp add: length_cumsum_from)
  have sub: "tf_sub (Vec h) (Vec (map ln ?cs)) =
      Inr (Vec (map (\<lambda>j. h ! j - ln (\<Sum>k\<le>j. exp (h ! k))) [0..<length h]))"
    unfolding tf_sub_def using len
    by (simp add: tf_binop_vec length_cumsum_from cumsum_from_nth del: tf_binop.simps)
  have mul: "tf_mul (Vec (map (\<lambda>j. h ! j - ln (\<Sum>k\<le>j. exp (h ! k))) [0..<length h])) (Vec e) =
      Inr (Vec (map (\<lambda>j. (h ! j - ln (\<Sum>k\<le>j. exp (h ! k))) * e ! j) [0..<length h]))"
    unfolding tf_mul_def using assms by (simp add: tf_binop_vec del: tf_binop.simps)
  show ?thesis
    using pos
    by (simp add: negative_log_likelihood_def tf_exp_def tf_log_def sub mul reduce_sum_def
        textbook_nll_def interv_sum_list_conv_sum_set_nat atLeast0LessThan mult.commute)
qed

text \<open>
  C1. The loss of the closure is the negative log partial likelihood: the negated sum,
  over the patients, of event indicator times (score minus log of the running sum of the
  hazard ratios).

  In training the prediction is the output of a \<^verbatim>\<open>Dense(units=1)\<close> layer, a column of
  shape \<open>(n, 1)\<close>. \<^verbatim>\<open>tf.math.cumsum\<close> keeps that shape, \<^verbatim>\<open>tf.transpose(y_pred)\<close> has shape
  \<open>(1, n)\<close>, and the subtraction of line 120 broadcasts the two to an \<open>n\<close> by \<open>n\<close> matrix
  whose entry \<open>(i, j)\<close> is score \<open>j\<close> minus log risk \<open>i\<close>. On two patients with scores 0
  and events observed, the closure returns \<open>2 * ln 2\<close>; the negative log partial
  likelihood of that batch is \<open>ln 2\<close>.
\<close>

theorem loss_on_column_prediction:
  "negative_log_likelihood (Vec [1, 1]) y_true (Mat [[0], [0]]) = Inr (2 * ln 2)
   \<and> textbook_nll [1, 1] [0, 0] = ln 2 \<and> 2 * ln 2 \<noteq> ln (2::real)"
  by (simp add: negative_log_likelihood_def tf_exp_def tf_log_def tf_sub_def tf_mul_def
      reduce_sum_def broadcast2_def bdim_def bget_def nrows_def ncols_def upt_rec
      textbook_nll_def lessThan_Suc atMost_Suc numeral_2_eq_2)

text \<open>
  C9. The loss does not depend on \<^verbatim>\<open>y_true\<close>: for the same event indicators and the
  same prediction, any two label arrays give the same value.
\<close>

theorem loss_ignores_y_true:
  "negative_log_likelihood E y_true1 y_pred = negative_log_likelihood E y_true2 y_pred"
  by (simp add: negative_log_likelihood_def)

section \<open>The predictions given to the concordance index\<close>



section \<open>The sort by descending time\<close>

lemma take_idx_in_range:
  "\<forall>i\<in>set idx. i < length xs \<Longrightarrow> take_idx xs idx = Inr (map (\<lambda>i. xs ! i) idx)"
  by (simp add: take_idx_def list_all_iff)

lemma np_take_in_range:
  assumes "shape0 E = Some n" and "\<forall>i\<in>set idx. i < n"
  shows "\<exists>E'. np_take E idx = Inr E' \<and> items E' = map (\<lambda>i. items E ! i) idx
           \<and> shape0 E' = Some (length idx)"
  using assms by (cases E) (auto simp: take_idx_in_range)

lemma shape0_items: "shape0 E = Some n \<Longrightarrow> length (items E) = n"
  by (cases E) auto

lemma is_argsort_mset: "is_argsort idx ys \<Longrightarrow> mset idx = mset [0..<length ys]"
  unfolding is_argsort_def by (metis mset_sort)

lemma is_argsort_set: "is_argsort idx ys \<Longrightarrow> set idx = {0..<length ys}"
  using is_argsort_mset [of idx ys] by (metis mset_eq_setD set_upt)

lemma is_argsort_length: "is_argsort idx ys \<Longrightarrow> length idx = length ys"
  using is_argsort_mset [of idx ys] by (metis mset_eq_length length_upt diff_zero)

lemma np_argsort_is_argsort: "is_argsort (np_argsort ys) ys"
proof -
  have "sort (sort_key (\<lambda>i. ys ! i) [0..<length ys]) = [0..<length ys]"
    by (rule properties_for_sort) simp_all
  then show ?thesis by (simp add: is_argsort_def np_argsort_def)
qed

lemma sort_by_time_argsort:
  assumes srt: "is_argsort idx Y" and lx: "length X = length Y"
    and le: "shape0 E = Some (length Y)"
  shows "\<exists>E'. sort_by_time (rev idx) X Y E
            = Inr (map (\<lambda>i. X ! i) (rev idx), map (\<lambda>i. Y ! i) (rev idx), E')
      \<and> items E' = map (\<lambda>i. items E ! i) (rev idx) \<and> shape0 E' = Some (length Y)"
proof -
  have rng: "\<forall>i\<in>set (rev idx). i < length Y" using is_argsort_set [OF srt] by simp
  have len: "length (rev idx) = length Y" using is_argsort_length [OF srt] by simp
  obtain E' where E': "np_take E (rev idx) = Inr E'"
      "items E' = map (\<lambda>i. items E ! i) (rev idx)" "shape0 E' = Some (length (rev idx))"
    using np_take_in_range [OF le rng] by blast
  have "sort_by_time (rev idx) X Y E
      = Inr (map (\<lambda>i. X ! i) (rev idx), map (\<lambda>i. Y ! i) (rev idx), E')"
    using rng lx E'(1) by (simp add: sort_by_time_def take_idx_in_range)
  then show ?thesis using E'(2,3) len by auto
qed

lemma zip3_nth:
  assumes "length X = n" "length Y = n" "length Z = n"
  shows "map (\<lambda>i. (X ! i, Y ! i, Z ! i)) [0..<n] = zip X (zip Y Z)"
  using assms by (intro nth_equalityI) auto

text \<open>
  C2. One permutation, the reversed argsort of the time array, is applied to the feature
  matrix, the time array and the event indicators. When the three arrays have the same
  number of items, the sort succeeds, the sorted times are in non-increasing order, the
  multiset of (features, time, event) triples is unchanged, and every triple after the
  sort is the triple of one index before it. This holds for every result that
  \<^verbatim>\<open>np.argsort\<close> may return, whatever the order it gives to equal times.
\<close>

theorem sort_keeps_alignment:
  assumes srt: "is_argsort idx Y" and lx: "length X = length Y"
    and le: "shape0 E = Some (length Y)"
  shows "\<exists>X' Y' E'. sort_by_time (rev idx) X Y E = Inr (X', Y', E')
      \<and> length X' = length Y \<and> length Y' = length Y \<and> shape0 E' = Some (length Y)
      \<and> sorted (rev Y')
      \<and> mset (zip X' (zip Y' (items E'))) = mset (zip X (zip Y (items E)))
      \<and> (\<forall>i<length Y. \<exists>j<length Y.
            X' ! i = X ! j \<and> Y' ! i = Y ! j \<and> items E' ! i = items E ! j)"
proof -
  let ?n = "length Y"
  let ?s = "rev idx"
  have rng: "\<forall>i\<in>set ?s. i < ?n" using is_argsort_set [OF srt] by simp
  have len: "length ?s = ?n" using is_argsort_length [OF srt] by simp
  let ?X' = "map (\<lambda>i. X ! i) ?s" and ?Y' = "map (\<lambda>i. Y ! i) ?s"
  obtain E' where run: "sort_by_time ?s X Y E = Inr (?X', ?Y', E')"
    and E': "items E' = map (\<lambda>i. items E ! i) ?s" "shape0 E' = Some ?n"
    using sort_by_time_argsort [OF srt lx le] by blast
  have srtd: "sorted (rev ?Y')"
    using srt by (simp add: is_argsort_def rev_map)
  let ?F = "\<lambda>i. (X ! i, Y ! i, items E ! i)"
  have zipd: "zip ?X' (zip ?Y' (items E')) = map ?F ?s"
    by (simp add: E'(1) zip_map_map zip_same_conv_map)
  have "mset (map ?F ?s) = image_mset ?F (mset idx)" by simp
  also have "\<dots> = image_mset ?F (mset [0..<?n])" using is_argsort_mset [OF srt] by simp
  also have "\<dots> = mset (map ?F [0..<?n])" by simp
  also have "\<dots> = mset (zip X (zip Y (items E)))"
    using zip3_nth [OF lx refl shape0_items [OF le]] by simp
  finally have ms: "mset (zip ?X' (zip ?Y' (items E'))) = mset (zip X (zip Y (items E)))"
    using zipd by simp
  have pt: "\<forall>i<?n. \<exists>j<?n. ?X' ! i = X ! j \<and> ?Y' ! i = Y ! j \<and> items E' ! i = items E ! j"
  proof (intro allI impI)
    fix i assume "i < ?n"
    then have "i < length ?s" using len by simp
    then have "?s ! i \<in> set ?s" by (rule nth_mem)
    then have "?s ! i < ?n" using rng by blast
    moreover have "?X' ! i = X ! (?s ! i)" "?Y' ! i = Y ! (?s ! i)"
        "items E' ! i = items E ! (?s ! i)"
      using \<open>i < length ?s\<close> by (simp_all add: E'(1))
    ultimately show "\<exists>j<?n. ?X' ! i = X ! j \<and> ?Y' ! i = Y ! j \<and> items E' ! i = items E ! j"
      by blast
  qed
  show ?thesis
    using run srtd ms pt len E'(2) by (intro exI [of _ ?X'] exI [of _ ?Y'] exI [of _ E']) simp
qed

theorem sort_keeps_alignment_witness:
  "is_argsort (np_argsort [3, 1, 2]) [3, 1, 2]
   \<and> length [''a'', ''b'', ''c''] = length [3, 1, 2 :: real]
   \<and> shape0 (Vec [0, 1, 1]) = Some (length [3, 1, 2 :: real])
   \<and> sort_step [''a'', ''b'', ''c''] [3, 1, 2] (Vec [0, 1, 1])
       = Inr ([''a'', ''c'', ''b''], [3, 2, 1], Vec [0, 1, 1])
   \<and> sorted (rev [3, 2, 1 :: real])
   \<and> mset (zip [''a'', ''c'', ''b''] (zip [3, 2, 1 :: real] (items (Vec [0, 1, 1]))))
       = mset (zip [''a'', ''b'', ''c''] (zip [3, 1, 2 :: real] (items (Vec [0, 1, 1]))))"
proof -
  have a: "is_argsort (np_argsort [3, 1, 2]) [3, 1, 2]"
    by (simp add: is_argsort_def np_argsort_def upt_rec)
  have b: "length [''a'', ''b'', ''c''] = length [3, 1, 2 :: real]" by simp
  have c: "shape0 (Vec [0, 1, 1]) = Some (length [3, 1, 2 :: real])" by simp
  have d: "sort_step [''a'', ''b'', ''c''] [3, 1, 2] (Vec [0, 1, 1])
       = Inr ([''a'', ''c'', ''b''], [3, 2, 1], Vec [0, 1, 1])"
    by (simp add: sort_step_def sort_by_time_def take_idx_def np_argsort_def upt_rec)
  from sort_keeps_alignment [OF a b c] d a show ?thesis
    by (auto simp: sort_step_def)
qed

section \<open>One batch for each epoch\<close>




section \<open>The training loop\<close>

lemma run_epoch_fields:
  assumes "step (weights st) = (w', l)"
  shows "weights (run_epoch step st) = w'"
    and "stop_training (run_epoch step st) = (stop_training st \<or> non_finite l)"
    and "history (run_epoch step st) = history st @ [(l, w', np_less l (best st))]"
    and "best (run_epoch step st) = (if np_less l (best st) then l else best st)"
    and "checkpoint (run_epoch step st) = (if np_less l (best st) then Some w' else checkpoint st)"
  using assms
  by (simp_all add: run_epoch_def terminate_on_nan_def model_checkpoint_def non_finite_def)

text \<open>
  What the loop adds to the history, from a state in which \<^verbatim>\<open>stop_training\<close> is not set:
  at most \<open>n\<close> entries; an entry with a non-finite loss is the last one; fewer than \<open>n\<close>
  entries only when the last loss is non-finite; and each entry is the result of one
  epoch of training on the model of the entry before.
\<close>

lemma fit_loop_history:
  assumes "\<not> stop_training st"
  shows "\<exists>new. history (fit_loop step n st) = history st @ new
     \<and> length new \<le> n
     \<and> (0 < n \<longrightarrow> new \<noteq> [] \<and>
          hd new = (snd (step (weights st)), fst (step (weights st)),
                    np_less (snd (step (weights st))) (best st)))
     \<and> (\<forall>i<length new. non_finite (loss_of (new ! i)) \<longrightarrow> Suc i = length new)
     \<and> (length new < n \<longrightarrow> new \<noteq> [] \<and> non_finite (loss_of (last new)))
     \<and> (\<forall>i<length new. Suc i < length new \<longrightarrow>
           (model_of (new ! Suc i), loss_of (new ! Suc i)) = step (model_of (new ! i)))"
  using assms
proof (induction n arbitrary: st)
  case 0
  then show ?case by simp
next
  case (Suc n)
  obtain w' l where sw: "step (weights st) = (w', l)" by (cases "step (weights st)")
  let ?st' = "run_epoch step st"
  let ?e = "(l, w', np_less l (best st))"
  note f = run_epoch_fields [of step st w' l, OF sw]
  show ?case
  proof (cases "stop_training ?st'")
    case True
    then have nf: "non_finite l" using f(2) Suc.prems by simp
    have "history (fit_loop step (Suc n) st) = history st @ [?e]"
      using True f(3) by (simp add: Let_def)
    then show ?thesis using nf sw
      by (intro exI [of _ "[?e]"]) (simp add: loss_of_def)
  next
    case False
    then have fin: "\<not> non_finite l" using f(2) by simp
    from Suc.IH [OF False] obtain new where new:
      "history (fit_loop step n ?st') = history ?st' @ new"
      "length new \<le> n"
      "0 < n \<longrightarrow> new \<noteq> [] \<and>
         hd new = (snd (step w'), fst (step w'), np_less (snd (step w')) (best ?st'))"
      "\<forall>i<length new. non_finite (loss_of (new ! i)) \<longrightarrow> Suc i = length new"
      "length new < n \<longrightarrow> new \<noteq> [] \<and> non_finite (loss_of (last new))"
      "\<forall>i<length new. Suc i < length new \<longrightarrow>
           (model_of (new ! Suc i), loss_of (new ! Suc i)) = step (model_of (new ! i))"
      using f(1) by auto
    have h: "history (fit_loop step (Suc n) st) = history st @ (?e # new)"
      using False new(1) f(3) by (simp add: Let_def)
    have a: "\<forall>i<length (?e # new).
        non_finite (loss_of ((?e # new) ! i)) \<longrightarrow> Suc i = length (?e # new)"
    proof (intro allI impI)
      fix i assume i: "i < length (?e # new)" and nf: "non_finite (loss_of ((?e # new) ! i))"
      show "Suc i = length (?e # new)"
      proof (cases i)
        case 0
        with nf fin show ?thesis by (simp add: loss_of_def)
      next
        case (Suc k)
        with i nf new(4) show ?thesis by simp
      qed
    qed
    have b: "length (?e # new) < Suc n \<longrightarrow>
        ?e # new \<noteq> [] \<and> non_finite (loss_of (last (?e # new)))"
      using new(5) by auto
    have c: "\<forall>i<length (?e # new). Suc i < length (?e # new) \<longrightarrow>
        (model_of ((?e # new) ! Suc i), loss_of ((?e # new) ! Suc i))
        = step (model_of ((?e # new) ! i))"
    proof (intro allI impI)
      fix i assume i: "i < length (?e # new)" and si: "Suc i < length (?e # new)"
      show "(model_of ((?e # new) ! Suc i), loss_of ((?e # new) ! Suc i))
          = step (model_of ((?e # new) ! i))"
      proof (cases i)
        case 0
        then have ne: "new \<noteq> []" using si by auto
        then have "0 < length new" by simp
        then have "0 < n" using new(2) by linarith
        with new(3) ne
        have "new ! 0 = (snd (step w'), fst (step w'), np_less (snd (step w')) (best ?st'))"
          by (simp add: hd_conv_nth)
        with 0 show ?thesis by (simp add: model_of_def loss_of_def)
      next
        case (Suc k)
        with si new(6) show ?thesis by simp
      qed
    qed
    have d: "0 < Suc n \<longrightarrow> ?e # new \<noteq> [] \<and>
          hd (?e # new) = (snd (step (weights st)), fst (step (weights st)),
                    np_less (snd (step (weights st))) (best st))"
      using sw by simp
    have e: "length (?e # new) \<le> Suc n" using new(2) by simp
    show ?thesis
      apply (rule exI [of _ "?e # new"])
      apply (intro conjI)
           apply (rule h)
          apply (rule e)
         apply (rule d)
        apply (rule a)
       apply (rule b)
      apply (rule c)
      done
  qed
qed

lemma fit_history:
  "\<exists>H. history (fit step (script_fit_args n) w0 file0) = H
     \<and> length H \<le> 200
     \<and> H \<noteq> [] \<and> hd H = (snd (step w0), fst (step w0), np_less (snd (step w0)) PosInf)
     \<and> (\<forall>i<length H. non_finite (loss_of (H ! i)) \<longrightarrow> Suc i = length H)
     \<and> (length H < 200 \<longrightarrow> non_finite (loss_of (last H)))
     \<and> (\<forall>i<length H. Suc i < length H \<longrightarrow>
           (model_of (H ! Suc i), loss_of (H ! Suc i)) = step (model_of (H ! i)))"
proof -
  let ?st0 = "\<lparr>weights = w0, stop_training = False, best = PosInf, checkpoint = file0,
               history = []\<rparr>"
  have "\<not> stop_training ?st0" by simp
  from fit_loop_history [OF this, of step 200]
  show ?thesis by (simp add: fit_def script_fit_args_def)
qed

text \<open>
  C6. Training runs the 200 epochs or halts at the first epoch whose loss is non-finite,
  and never continues past a non-finite loss. The history of \<^verbatim>\<open>fit\<close> has one entry for
  each epoch that ran, each the result of one epoch of training on the model of the
  entry before, starting from the initial model. It has at least one and at most 200
  entries, an entry with a non-finite loss is the last entry, and when there are fewer
  than 200 entries the loss of the last one is non-finite.
\<close>

theorem training_stops_at_non_finite_loss:
  "(let H = history (fit step (script_fit_args n) w0 file0) in
      H \<noteq> [] \<and> length H \<le> 200
    \<and> (\<forall>i<length H. non_finite (loss_of (H ! i)) \<longrightarrow> Suc i = length H)
    \<and> (length H < 200 \<longrightarrow> non_finite (loss_of (last H)))
    \<and> (model_of (H ! 0), loss_of (H ! 0)) = step w0
    \<and> (\<forall>i. Suc i < length H \<longrightarrow>
          (model_of (H ! Suc i), loss_of (H ! Suc i)) = step (model_of (H ! i))))"
proof -
  from fit_history [of step n w0 file0] obtain H where H:
    "history (fit step (script_fit_args n) w0 file0) = H"
    "length H \<le> 200"
    "H \<noteq> []" "hd H = (snd (step w0), fst (step w0), np_less (snd (step w0)) PosInf)"
    "\<forall>i<length H. non_finite (loss_of (H ! i)) \<longrightarrow> Suc i = length H"
    "length H < 200 \<longrightarrow> non_finite (loss_of (last H))"
    "\<forall>i<length H. Suc i < length H \<longrightarrow>
           (model_of (H ! Suc i), loss_of (H ! Suc i)) = step (model_of (H ! i))"
    by blast
  have h0: "(model_of (H ! 0), loss_of (H ! 0)) = step w0"
    using H(3,4) by (simp add: hd_conv_nth model_of_def loss_of_def)
  have ch: "\<forall>i. Suc i < length H \<longrightarrow>
         (model_of (H ! Suc i), loss_of (H ! Suc i)) = step (model_of (H ! i))"
    using H(7) by auto
  show ?thesis
    unfolding Let_def H(1)
    apply (intro conjI)
         apply (rule H(3))
        apply (rule H(2))
       apply (rule H(5))
      apply (rule H(6))
     apply (rule h0)
    apply (rule ch)
    done
qed

lemma example_fit:
  "fit (\<lambda>w. (Suc w, if w = 0 then Fin 1 else NaN)) (script_fit_args 2) 0 None =
     \<lparr>weights = 2, stop_training = True, best = Fin 1, checkpoint = Some 1,
      history = [(Fin 1, 1, True), (NaN, 2, False)]\<rparr>"
  by (simp add: fit_def script_fit_args_def run_epoch_def terminate_on_nan_def
      model_checkpoint_def eval_nat_numeral)

theorem training_stops_at_non_finite_loss_witness:
  "history (fit (\<lambda>w. (Suc w, if w = 0 then Fin 1 else NaN)) (script_fit_args 2) 0 None)
     = [(Fin 1, 1, True), (NaN, 2, False)]
   \<and> length [(Fin 1, 1::nat, True), (NaN, 2, False)] < 200
   \<and> \<not> non_finite (loss_of (Fin 1, 1::nat, True))
   \<and> non_finite (loss_of (last [(Fin 1, 1::nat, True), (NaN, 2, False)]))"
  using training_stops_at_non_finite_loss
    [of "\<lambda>w. (Suc w, if w = 0 then Fin 1 else NaN)" 2 0 None]
  by (simp add: example_fit non_finite_def loss_of_def)

section \<open>The checkpoint\<close>














section \<open>The start of the script and the order of its steps\<close>

lemma take_idx_error: "take_idx xs idx = Inl e \<Longrightarrow> e = IndexError"
  by (simp add: take_idx_def split: if_splits)

lemma np_take_error: "np_take E idx = Inl e \<Longrightarrow> e = IndexError"
  by (cases E) (auto split: sum.splits dest: take_idx_error)

lemma sort_step_error: "sort_step X Y E = Inl e \<Longrightarrow> e = IndexError"
  by (auto simp: sort_step_def sort_by_time_def split: sum.splits
      dest: take_idx_error np_take_error)

text \<open>
  C5, as amended. The check of lines 19 and 20 raises its \<^verbatim>\<open>ValueError\<close> exactly when
  the data directory does not exist, and then nothing else has happened: no data was
  read, no directory was created. When the data directory exists, the check is the
  first step of the run and is not repeated, that \<^verbatim>\<open>ValueError\<close> is not raised, and the
  models directory exists afterwards, created if it was missing.
\<close>

theorem startup_check:
  "(PATH_DATA \<notin> paths w \<longrightarrow>
      run K w = \<lparr>events = [CheckDataDir], paths_after = paths w,
                 model_file_after = model_file w, result = Inl no_data_dir\<rparr>)
   \<and> (PATH_DATA \<in> paths w \<longrightarrow>
        result (run K w) \<noteq> Inl no_data_dir
      \<and> paths_after (run K w) = insert PATH_MODELS (paths w)
      \<and> (\<exists>es. events (run K w) = CheckDataDir # es \<and> CheckDataDir \<notin> set es))"
  by (auto simp: run_def startup_def no_data_dir_def load_dataset_def np_load_def train_def Let_def
      split: sum.splits option.splits prod.splits if_splits dest: sort_step_error)

theorem startup_check_witness:
  "PATH_DATA \<notin> paths (example_world\<lparr>paths := {}\<rparr>)
   \<and> run example_keras (example_world\<lparr>paths := {}\<rparr>)
       = \<lparr>events = [CheckDataDir], paths_after = {}, model_file_after = None,
          result = Inl no_data_dir\<rparr>
   \<and> PATH_DATA \<in> paths example_world
   \<and> PATH_MODELS \<notin> paths example_world
   \<and> result (run example_keras example_world) \<noteq> Inl no_data_dir
   \<and> paths_after (run example_keras example_world) = {PATH_MODELS, PATH_DATA}"
  using startup_check [of "example_world\<lparr>paths := {}\<rparr>" example_keras]
    startup_check [of example_world example_keras]
  by (simp add: example_world_def PATH_DATA_def PATH_MODELS_def)

text \<open>
  C5, as stated, fails in the direction "only if": with the data directory present and
  no \<^verbatim>\<open>.npy\<close> file, the script raises \<^verbatim>\<open>FileNotFoundError\<close> at line 55. The arrays are
  read from the parent of the directory that is checked.
\<close>

theorem run_raises_with_data_dir:
  "PATH_DATA \<in> paths bare_world
   \<and> result (run example_keras bare_world)
       = Inl (FileNotFoundError ''../deepsurvk/datasets/X_train_1000.npy'')"
  by (simp add: run_def bare_world_def startup_def load_dataset_def np_load_def)




end
